theory Spec2Isabelle
  imports Main "HOL-Library.Word" "HOL-Library.Signed_Division"
begin

unbundle bit_operations_syntax

section \<open>Data model of the BLDC state manager (BLDC\_sm.c)\<close>

type_synonym uint16_t = "16 word"

text \<open>An \<open>int16_t\<close> is a 16-bit word read in two's complement (\<open>sint\<close>).\<close>

type_synonym int16_t = "16 word"

text \<open>
  The enumeration \<open>BL_State_T\<close> is declared in bldc\_sm.h; the source names the seven
  enumerators below. \<open>BL_set_opstate\<close> takes any \<open>uint8_t\<close>, so the variable can hold a
  value equal to none of them: \<open>BL_UNRECOGNIZED n\<close> stands for such a value.
\<close>

datatype BL_State_T =
    BL_NONE
  | BL_STOPPED
  | BL_ARMING
  | BL_ALIGN
  | BL_RAMPUP
  | BL_OPN_LOOP
  | BL_CLS_LOOP
  | BL_UNRECOGNIZED nat

datatype BL_RUNSTATE_t = BL_NOT_RUNNING | BL_IS_RUNNING

datatype fault_id = FAULT_1

text \<open>
  The calls the module makes into its collaborators that change something there (drive,
  PWM peripheral, fault manager, sequencer), in the order they are made.
\<close>

datatype call =
    All_phase_stop
  | Faultm_init
  | Faultm_set fault_id
  | PWM_set_dutycycle uint16_t
  | Sequence_Step_0
  | Sequence_Step

text \<open>
  What the collaborators answer when queried during one run of the control task. Each
  query is made at most once per run. \<open>Faultm_get_status\<close> is only compared with 0.
\<close>

record tick_in =
  Faultm_get_status :: nat
  Seq_get_timing_error_p :: bool
  Seq_get_timing_error :: int16_t

text \<open>
  The constants the source derives from macros of absent headers (\<open>PWM_GET_PULSE_COUNTS\<close>,
  \<open>CTIME_SCALAR\<close>), each as an unsigned 16-bit value: the source casts the timing constants
  to \<open>uint16_t\<close>, and assigns the pulse counts to, or compares them with, \<open>uint16_t\<close>
  variables.
\<close>

record config =
  PWM_PD_ARMING :: uint16_t
  PWM_PD_ALIGN :: uint16_t
  PWM_PD_RAMPUP :: uint16_t
  PWM_PD_STARTUP :: uint16_t
  PWM_PD_SHUTOFF :: uint16_t
  BL_CT_RAMP_START :: uint16_t
  BL_CT_RAMP_END :: uint16_t
  BL_CT_STARTUP :: uint16_t
  BL_ONE_RAMP_UNIT :: uint16_t

text \<open>
  The values for \<open>CTIME_SCALAR = 1\<close> (the hexadecimal values in the source's comments:
  \<open>$1600\<close>, \<open>$06E0\<close>, \<open>$074A\<close>; ramp unit \<open>1.5 * 4\<close>) and a PWM period of 250 counts
  (0.4 percent per count).
\<close>

definition example_config :: config where
  "example_config =
    \<lparr> PWM_PD_ARMING = 21, PWM_PD_ALIGN = 62, PWM_PD_RAMPUP = 35, PWM_PD_STARTUP = 30,
      PWM_PD_SHUTOFF = 22, BL_CT_RAMP_START = 5632, BL_CT_RAMP_END = 1760,
      BL_CT_STARTUP = 1866, BL_ONE_RAMP_UNIT = 6 \<rparr>"

definition ERROR_LIMIT :: int16_t where
  "ERROR_LIMIT = 50"

definition BL_TIME_ALIGN :: uint16_t where
  "BL_TIME_ALIGN = 200 * 1"

definition CL_FAULT_CNTR :: uint16_t where
  "CL_FAULT_CNTR = 2000"

text \<open>\<open>U16_MAX\<close> comes from an absent header; the source's comment gives \<open>0xFFFF\<close>.\<close>

definition U16_MAX :: uint16_t where
  "U16_MAX = 0xFFFF"

text \<open>
  The file's static variables, and the two function-local statics of \<open>BL_State_Ctrl\<close>
  (\<open>atimer\<close>, \<open>fault_counter\<close>), which keep their value between calls.
\<close>

record bl_vars =
  BL_comm_period :: uint16_t
  BL_motor_speed :: uint16_t
  BL_optimer :: uint16_t
  BL_opstate :: BL_State_T
  atimer :: uint16_t
  fault_counter :: uint16_t

section \<open>Operations\<close>

definition BL_get_timing :: "bl_vars \<Rightarrow> uint16_t" where
  "BL_get_timing s = BL_comm_period s"

definition BL_set_timing :: "uint16_t \<Rightarrow> bl_vars \<Rightarrow> bl_vars" where
  "BL_set_timing u16 s = s\<lparr>BL_comm_period := u16\<rparr>"

definition BL_get_speed :: "bl_vars \<Rightarrow> uint16_t" where
  "BL_get_speed s = BL_motor_speed s"

definition BL_set_opstate :: "BL_State_T \<Rightarrow> bl_vars \<Rightarrow> bl_vars" where
  "BL_set_opstate opstate s = s\<lparr>BL_opstate := opstate\<rparr>"

definition BL_get_opstate :: "bl_vars \<Rightarrow> BL_State_T" where
  "BL_get_opstate s = BL_opstate s"

definition BL_get_state :: "config \<Rightarrow> bl_vars \<Rightarrow> BL_RUNSTATE_t" where
  "BL_get_state cfg s =
    (if BL_motor_speed s > PWM_PD_SHUTOFF cfg then BL_IS_RUNNING else BL_NOT_RUNNING)"

text \<open>
  \<open>u16 -= step\<close> and \<open>u16 += step\<close> are 16-bit operations: the result is stored back in a
  \<open>uint16_t\<close> before it is compared with the target, so it wraps.
\<close>

definition timing_ramp_control :: "config \<Rightarrow> uint16_t \<Rightarrow> uint16_t \<Rightarrow> bl_vars \<Rightarrow> bl_vars" where
  "timing_ramp_control cfg current_setpoint target_setpoint s =
    (let u16 = current_setpoint;
         u16 =
           (if u16 > target_setpoint then
              (let u16 = u16 - BL_ONE_RAMP_UNIT cfg in
               if u16 < target_setpoint then target_setpoint else u16)
            else if u16 < target_setpoint then
              (let u16 = u16 + BL_ONE_RAMP_UNIT cfg in
               if u16 > target_setpoint then target_setpoint else u16)
            else u16)
     in BL_set_timing u16 s)"

definition BL_stop :: "bl_vars \<Rightarrow> bl_vars \<times> call list" where
  "BL_stop s = (s\<lparr>BL_motor_speed := 0\<rparr>, [All_phase_stop])"

definition BL_reset :: "bl_vars \<Rightarrow> bl_vars \<times> call list" where
  "BL_reset s =
    (let (s, cs) = BL_stop s;
         s = BL_set_timing U16_MAX s;
         cs = cs @ [Faultm_init];
         s = BL_set_opstate BL_STOPPED s
     in (s, cs))"

definition BL_set_speed :: "config \<Rightarrow> uint16_t \<Rightarrow> bl_vars \<Rightarrow> bl_vars \<times> call list" where
  "BL_set_speed cfg ui_mspeed_counts s =
    (if ui_mspeed_counts > PWM_PD_SHUTOFF cfg then
       (if ui_mspeed_counts > PWM_PD_STARTUP cfg \<or> 0 \<noteq> BL_motor_speed s
        then (s\<lparr>BL_motor_speed := ui_mspeed_counts\<rparr>, [])
        else (s, []))
     else BL_stop s)"

text \<open>
  The signed comparison and the division are made on the promoted (mathematical) values;
  C division truncates towards zero (\<open>sdiv\<close>). The sum of the unsigned period and the
  signed correction is passed as a \<open>uint16_t\<close>, that is modulo \<open>2 ^ 16\<close>.
\<close>

definition BL_cl_control :: "tick_in \<Rightarrow> uint16_t \<Rightarrow> bl_vars \<Rightarrow> bl_vars \<times> bool" where
  "BL_cl_control inp current_setpoint s =
    (if Seq_get_timing_error_p inp then
       (let ERROR_MAX = ERROR_LIMIT;
            ERROR_MIN = -1 * ERROR_LIMIT;
            timing_error = Seq_get_timing_error inp
        in if sint timing_error > sint ERROR_MIN \<and> sint timing_error < sint ERROR_MAX then
             (let PROP_GAIN = (10 :: int16_t);
                  correction = (word_of_int (sint timing_error sdiv sint PROP_GAIN) :: int16_t)
              in (BL_set_timing (current_setpoint + correction) s, True))
           else (s, False))
     else (s, False))"

definition BL_State_Ctrl :: "config \<Rightarrow> tick_in \<Rightarrow> bl_vars \<Rightarrow> bl_vars \<times> call list" where
  "BL_State_Ctrl cfg inp s =
    (let inp_dutycycle = (0 :: uint16_t);
         (s, cs, inp_dutycycle) =
           (if 0 \<noteq> Faultm_get_status inp then
              (let (s, cs) = BL_stop s in (s, cs, inp_dutycycle))
            else
              (let bl_opstate = BL_get_opstate s;
                   inp_dutycycle = BL_get_speed s
               in if BL_ARMING = bl_opstate then
                    (let ARMING_TIME_TOTAL = (0x0900 :: uint16_t);
                         ARMING_TIME_DELAY = (0x0200 :: uint16_t);
                         ARMING_TIME_MASK = (0x01C0 :: uint16_t);
                         ARMING_BL_TIMING = (0x0010 :: uint16_t);
                         s = BL_set_timing ARMING_BL_TIMING s
                     in if atimer s < ARMING_TIME_TOTAL then
                          (let s = s\<lparr>atimer := atimer s + 1\<rparr>;
                               inp_dutycycle = 0;
                               inp_dutycycle =
                                 (if atimer s > ARMING_TIME_DELAY
                                  then PWM_PD_ARMING cfg else inp_dutycycle);
                               inp_dutycycle =
                                 (if atimer s AND ARMING_TIME_MASK \<noteq> 0
                                  then 0 else inp_dutycycle)
                           in (s, [], inp_dutycycle))
                        else
                          (let (s, cs) = BL_reset s in (s, cs, inp_dutycycle)))
                  else if BL_STOPPED = BL_get_opstate s then
                    (if inp_dutycycle > 0 then
                       (let s = BL_set_opstate BL_ALIGN s;
                            s = s\<lparr>BL_optimer := BL_TIME_ALIGN\<rparr>;
                            s = BL_set_timing (BL_CT_RAMP_START cfg) s
                        in (s, [], inp_dutycycle))
                     else (s, [], inp_dutycycle))
                  else if BL_ALIGN = bl_opstate then
                    (if BL_optimer s > 0 then
                       (let inp_dutycycle = PWM_PD_ALIGN cfg;
                            s = s\<lparr>BL_optimer := BL_optimer s - 1\<rparr>
                        in (s, [], inp_dutycycle))
                     else (BL_set_opstate BL_RAMPUP s, [], inp_dutycycle))
                  else if BL_RAMPUP = bl_opstate then
                    (let bl_timing_setpt = BL_get_timing s;
                         tgt_timing_setpt = BL_CT_RAMP_END cfg;
                         s = timing_ramp_control cfg bl_timing_setpt tgt_timing_setpt s;
                         inp_dutycycle = PWM_PD_RAMPUP cfg;
                         s = (if bl_timing_setpt \<le> tgt_timing_setpt
                              then BL_set_opstate BL_OPN_LOOP s else s)
                     in (s, [], inp_dutycycle))
                  else if BL_OPN_LOOP = bl_opstate then
                    (let bl_timing_setpt = BL_get_timing s;
                         s = timing_ramp_control cfg bl_timing_setpt (BL_CT_STARTUP cfg) s;
                         inp_dutycycle = PWM_PD_STARTUP cfg;
                         (s, accepted) = BL_cl_control inp bl_timing_setpt s;
                         s = (if accepted then BL_set_opstate BL_CLS_LOOP s else s)
                     in (s, [], inp_dutycycle))
                  else if BL_CLS_LOOP = bl_opstate then
                    (let FAULT_DECR = (1 :: uint16_t);
                         (s, accepted) = BL_cl_control inp (BL_get_timing s) s
                     in if accepted then
                          (if fault_counter s < CL_FAULT_CNTR
                           then (s\<lparr>fault_counter := CL_FAULT_CNTR\<rparr>, [], inp_dutycycle)
                           else (s, [], inp_dutycycle))
                        else
                          (if fault_counter s > 0
                           then (s\<lparr>fault_counter := fault_counter s - FAULT_DECR\<rparr>, [],
                                 inp_dutycycle)
                           else (s, [Faultm_set FAULT_1], inp_dutycycle)))
                  else (s, [], inp_dutycycle)))
     in (s, cs @ [PWM_set_dutycycle inp_dutycycle]))"

definition BL_Commutation_Step :: "bl_vars \<Rightarrow> call list" where
  "BL_Commutation_Step s =
    (case BL_get_opstate s of
       BL_ARMING \<Rightarrow> [Sequence_Step_0]
     | BL_ALIGN \<Rightarrow> [Sequence_Step_0]
     | BL_RAMPUP \<Rightarrow> [Sequence_Step]
     | BL_OPN_LOOP \<Rightarrow> [Sequence_Step]
     | BL_CLS_LOOP \<Rightarrow> [Sequence_Step]
     | BL_STOPPED \<Rightarrow> []
     | BL_NONE \<Rightarrow> []
     | _ \<Rightarrow> [])"

text \<open>The control task run once per element of a list of collaborator answers.\<close>

fun run_ticks :: "config \<Rightarrow> tick_in list \<Rightarrow> bl_vars \<Rightarrow> bl_vars \<times> call list" where
  "run_ticks cfg [] s = (s, [])"
| "run_ticks cfg (i # ins) s =
    (let (s1, cs1) = BL_State_Ctrl cfg i s;
         (s2, cs2) = run_ticks cfg ins s1
     in (s2, cs1 @ cs2))"

text \<open>
  The condition under which \<open>BL_cl_control\<close> returns \<open>TRUE\<close>: a timing-error sample is
  available and it lies strictly between \<open>ERROR_MIN\<close> and \<open>ERROR_MAX\<close>.
\<close>

definition corrector_accepts :: "tick_in \<Rightarrow> bool" where
  "corrector_accepts inp \<longleftrightarrow>
     Seq_get_timing_error_p inp \<and> - 50 < sint (Seq_get_timing_error inp) \<and>
     sint (Seq_get_timing_error inp) < 50"


section \<open>Sample states and collaborator answers\<close>

text \<open>
  The variables after program startup: the static initial values (\<open>fault_counter\<close> is
  initialised to \<open>CL_FAULT_CNTR\<close>, the others to 0) followed by the \<open>BL_reset\<close> that the
  source requires at startup.
\<close>

definition startup_vars :: bl_vars where
  "startup_vars =
    \<lparr> BL_comm_period = 0xFFFF, BL_motor_speed = 0, BL_optimer = 0,
      BL_opstate = BL_STOPPED, atimer = 0, fault_counter = 2000 \<rparr>"

text \<open>No fault, no timing-error sample: the corrector rejects.\<close>

definition idle_in :: tick_in where
  "idle_in =
    \<lparr> Faultm_get_status = 0, Seq_get_timing_error_p = False, Seq_get_timing_error = 0 \<rparr>"

text \<open>No fault, a sample of \<open>-25\<close>: the corrector accepts, the correction is \<open>-2\<close>.\<close>

definition accept_in :: tick_in where
  "accept_in =
    \<lparr> Faultm_get_status = 0, Seq_get_timing_error_p = True, Seq_get_timing_error = - 25 \<rparr>"

text \<open>No fault, a sample of exactly \<open>50\<close>: on the bound, so the corrector rejects.\<close>

definition bound_in :: tick_in where
  "bound_in =
    \<lparr> Faultm_get_status = 0, Seq_get_timing_error_p = True, Seq_get_timing_error = 50 \<rparr>"

text \<open>The fault manager reports a fault.\<close>

definition fault_in :: tick_in where
  "fault_in =
    \<lparr> Faultm_get_status = 1, Seq_get_timing_error_p = True, Seq_get_timing_error = 3 \<rparr>"

text \<open>A motor running in closed loop with the fault counter at its initial value.\<close>

definition closed_loop_vars :: bl_vars where
  "closed_loop_vars =
    \<lparr> BL_comm_period = 1758, BL_motor_speed = 100, BL_optimer = 0,
      BL_opstate = BL_CLS_LOOP, atimer = 0, fault_counter = 2000 \<rparr>"

text \<open>The end of the ramp: two counts above \<open>BL_CT_RAMP_END\<close> of \<open>example_config\<close>.\<close>

definition ramp_end_vars :: bl_vars where
  "ramp_end_vars =
    \<lparr> BL_comm_period = 1762, BL_motor_speed = 100, BL_optimer = 0,
      BL_opstate = BL_RAMPUP, atimer = 0, fault_counter = 2000 \<rparr>"

text \<open>Open loop, just after the ramp.\<close>

definition open_loop_vars :: bl_vars where
  "open_loop_vars =
    \<lparr> BL_comm_period = 1760, BL_motor_speed = 100, BL_optimer = 0,
      BL_opstate = BL_OPN_LOOP, atimer = 0, fault_counter = 2000 \<rparr>"

text \<open>
  Starting the motor from \<open>BL_STOPPED\<close> with \<open>example_config\<close>: a speed command of 100
  counts, then 849 unfaulted runs of the control task without a timing-error sample
  (one to leave \<open>BL_STOPPED\<close>, 201 in \<open>BL_ALIGN\<close>, 647 in \<open>BL_RAMPUP\<close>).
\<close>

definition start_motor :: "bl_vars \<Rightarrow> bl_vars" where
  "start_motor s =
     fst (run_ticks example_config (replicate 849 idle_in)
       (fst (BL_set_speed example_config 100 s)))"

text \<open>
  Open loop on a second start of the motor, after a first run that ended with the fault
  counter exhausted and a \<open>BL_reset\<close>.
\<close>

definition reentry_vars :: bl_vars where
  "reentry_vars =
    \<lparr> BL_comm_period = 1760, BL_motor_speed = 100, BL_optimer = 0,
      BL_opstate = BL_OPN_LOOP, atimer = 0, fault_counter = 0 \<rparr>"

section \<open>The ramp step where the 16-bit arithmetic stays in range\<close>





section \<open>The control task, branch by branch\<close>

lemma BL_cl_control_eq:
  "BL_cl_control inp cur s =
     (if corrector_accepts inp
      then (s\<lparr>BL_comm_period :=
                cur + word_of_int (sint (Seq_get_timing_error inp) sdiv 10)\<rparr>, True)
      else (s, False))"
  by (auto simp: BL_cl_control_def corrector_accepts_def ERROR_LIMIT_def BL_set_timing_def
      Let_def)

lemma BL_State_Ctrl_fault:
  assumes "Faultm_get_status inp \<noteq> 0"
  shows "BL_State_Ctrl cfg inp s =
     (s\<lparr>BL_motor_speed := 0\<rparr>, [All_phase_stop, PWM_set_dutycycle 0])"
  using assms by (simp add: BL_State_Ctrl_def BL_stop_def)

lemma BL_State_Ctrl_STOPPED:
  assumes "Faultm_get_status inp = 0" "BL_opstate s = BL_STOPPED"
  shows "BL_State_Ctrl cfg inp s =
     (if BL_motor_speed s > 0
      then s\<lparr>BL_comm_period := BL_CT_RAMP_START cfg, BL_optimer := BL_TIME_ALIGN,
             BL_opstate := BL_ALIGN\<rparr>
      else s,
      [PWM_set_dutycycle (BL_motor_speed s)])"
  using assms
  by (simp add: BL_State_Ctrl_def BL_get_opstate_def BL_get_speed_def BL_set_timing_def
      BL_set_opstate_def)

lemma BL_State_Ctrl_ALIGN:
  assumes "Faultm_get_status inp = 0" "BL_opstate s = BL_ALIGN"
  shows "BL_State_Ctrl cfg inp s =
     (if BL_optimer s > 0
      then (s\<lparr>BL_optimer := BL_optimer s - 1\<rparr>, [PWM_set_dutycycle (PWM_PD_ALIGN cfg)])
      else (s\<lparr>BL_opstate := BL_RAMPUP\<rparr>, [PWM_set_dutycycle (BL_motor_speed s)]))"
  using assms
  by (simp add: BL_State_Ctrl_def BL_get_opstate_def BL_get_speed_def BL_set_opstate_def)

lemma BL_State_Ctrl_RAMPUP:
  assumes "Faultm_get_status inp = 0" "BL_opstate s = BL_RAMPUP"
  shows "BL_State_Ctrl cfg inp s =
     ((timing_ramp_control cfg (BL_comm_period s) (BL_CT_RAMP_END cfg) s)
        \<lparr>BL_opstate :=
           (if BL_comm_period s \<le> BL_CT_RAMP_END cfg then BL_OPN_LOOP else BL_RAMPUP)\<rparr>,
      [PWM_set_dutycycle (PWM_PD_RAMPUP cfg)])"
  using assms
  by (simp add: BL_State_Ctrl_def BL_get_opstate_def BL_get_timing_def BL_get_speed_def
      Let_def BL_set_opstate_def timing_ramp_control_def BL_set_timing_def)

lemma BL_State_Ctrl_OPN_LOOP:
  assumes "Faultm_get_status inp = 0" "BL_opstate s = BL_OPN_LOOP"
  shows "BL_State_Ctrl cfg inp s =
     (if corrector_accepts inp
      then s\<lparr>BL_comm_period :=
               BL_comm_period s + word_of_int (sint (Seq_get_timing_error inp) sdiv 10),
             BL_opstate := BL_CLS_LOOP\<rparr>
      else timing_ramp_control cfg (BL_comm_period s) (BL_CT_STARTUP cfg) s,
      [PWM_set_dutycycle (PWM_PD_STARTUP cfg)])"
  using assms
  by (simp add: BL_State_Ctrl_def BL_cl_control_eq BL_get_opstate_def BL_get_speed_def
      BL_get_timing_def timing_ramp_control_def BL_set_timing_def BL_set_opstate_def Let_def)

lemma BL_State_Ctrl_CLS_LOOP_rejected:
  assumes "Faultm_get_status inp = 0" "BL_opstate s = BL_CLS_LOOP" "\<not> corrector_accepts inp"
  shows "BL_State_Ctrl cfg inp s =
     (if fault_counter s > 0
      then (s\<lparr>fault_counter := fault_counter s - 1\<rparr>,
            [PWM_set_dutycycle (BL_motor_speed s)])
      else (s, [Faultm_set FAULT_1, PWM_set_dutycycle (BL_motor_speed s)]))"
  using assms
  by (simp add: BL_State_Ctrl_def BL_cl_control_eq BL_get_opstate_def BL_get_speed_def
      BL_get_timing_def)

lemma BL_State_Ctrl_CLS_LOOP_accepted:
  assumes "Faultm_get_status inp = 0" "BL_opstate s = BL_CLS_LOOP" "corrector_accepts inp"
  shows "BL_State_Ctrl cfg inp s =
     (s\<lparr>BL_comm_period :=
          BL_comm_period s + word_of_int (sint (Seq_get_timing_error inp) sdiv 10),
        fault_counter :=
          (if fault_counter s < CL_FAULT_CNTR then CL_FAULT_CNTR else fault_counter s)\<rparr>,
      [PWM_set_dutycycle (BL_motor_speed s)])"
  using assms
  by (simp add: BL_State_Ctrl_def BL_cl_control_eq BL_get_opstate_def BL_get_speed_def
      BL_get_timing_def)

section \<open>Runs of the control task\<close>

lemma run_ticks_append:
  "run_ticks cfg (xs @ ys) s =
     (let (s1, cs1) = run_ticks cfg xs s; (s2, cs2) = run_ticks cfg ys s1
      in (s2, cs1 @ cs2))"
  by (induction xs arbitrary: s) (simp_all add: split_beta Let_def)

lemma run_ticks_fault:
  "\<forall>i\<in>set ins. Faultm_get_status i \<noteq> 0 \<Longrightarrow>
   run_ticks cfg ins s =
     (if ins = [] then s else s\<lparr>BL_motor_speed := 0\<rparr>,
      concat (replicate (length ins) [All_phase_stop, PWM_set_dutycycle 0]))"
  by (induction ins arbitrary: s) (simp_all add: BL_State_Ctrl_fault)

lemma run_ticks_CLS_LOOP_rejected:
  "BL_opstate s = BL_CLS_LOOP \<Longrightarrow>
   \<forall>i\<in>set ins. Faultm_get_status i = 0 \<and> \<not> corrector_accepts i \<Longrightarrow>
   length ins \<le> unat (fault_counter s) \<Longrightarrow>
   run_ticks cfg ins s =
     (s\<lparr>fault_counter := fault_counter s - of_nat (length ins)\<rparr>,
      replicate (length ins) (PWM_set_dutycycle (BL_motor_speed s)))"
proof (induction ins arbitrary: s)
  case Nil
  then show ?case by simp
next
  case (Cons i ins)
  from Cons.prems have "unat (fault_counter s) \<noteq> 0"
    by simp
  then have nz: "fault_counter s \<noteq> 0"
    by (auto simp: unat_eq_zero)
  then have pos: "0 < fault_counter s"
    by (simp add: word_neq_0_conv)
  have dec: "unat (fault_counter s - 1) = unat (fault_counter s) - 1"
    using nz by (simp add: unat_minus_one)
  have step: "BL_State_Ctrl cfg i s =
      (s\<lparr>fault_counter := fault_counter s - 1\<rparr>, [PWM_set_dutycycle (BL_motor_speed s)])"
    using Cons.prems pos by (simp add: BL_State_Ctrl_CLS_LOOP_rejected)
  have "run_ticks cfg ins (s\<lparr>fault_counter := fault_counter s - 1\<rparr>) =
      (s\<lparr>fault_counter := fault_counter s - 1 - of_nat (length ins)\<rparr>,
       replicate (length ins) (PWM_set_dutycycle (BL_motor_speed s)))"
    using Cons.IH [of "s\<lparr>fault_counter := fault_counter s - 1\<rparr>"] Cons.prems dec
    by simp
  then show ?case
    using step by (simp add: algebra_simps)
qed

lemma unat_CL_FAULT_CNTR_minus:
  assumes "n \<le> 2000"
  shows "unat (CL_FAULT_CNTR - of_nat n) = 2000 - n"
proof -
  have a: "unat (of_nat n :: 16 word) = n"
    using assms by (simp add: unat_of_nat)
  have b: "(of_nat n :: 16 word) \<le> CL_FAULT_CNTR"
    using assms a by (simp add: word_le_nat_alt CL_FAULT_CNTR_def)
  show ?thesis
    using a unat_sub [OF b] by (simp add: CL_FAULT_CNTR_def)
qed

lemma CL_FAULT_CNTR_minus_eq_0:
  assumes "n \<le> 2000"
  shows "CL_FAULT_CNTR - of_nat n = (0 :: 16 word) \<longleftrightarrow> n = 2000"
proof -
  have "CL_FAULT_CNTR - of_nat n = (0 :: 16 word) \<longleftrightarrow>
      unat (CL_FAULT_CNTR - of_nat n :: 16 word) = 0"
    by (simp add: unat_eq_zero)
  also have "\<dots> \<longleftrightarrow> n = 2000"
    using assms unat_CL_FAULT_CNTR_minus [OF assms] by simp
  finally show ?thesis .
qed

lemma CL_FAULT_CNTR_minus_le:
  assumes "n \<le> 2000"
  shows "\<not> CL_FAULT_CNTR < CL_FAULT_CNTR - of_nat n"
  using unat_CL_FAULT_CNTR_minus [OF assms]
  by (simp add: word_less_nat_alt) (simp add: CL_FAULT_CNTR_def)

section \<open>A motor start, a fault, and a second start\<close>

text \<open>
  In \<open>BL_ALIGN\<close> the operation timer counts down by one per unfaulted tick.
\<close>

lemma run_ticks_ALIGN:
  "BL_opstate s = BL_ALIGN \<Longrightarrow> \<forall>i\<in>set ins. Faultm_get_status i = 0 \<Longrightarrow>
   length ins \<le> unat (BL_optimer s) \<Longrightarrow>
   fst (run_ticks cfg ins s) = s\<lparr>BL_optimer := BL_optimer s - of_nat (length ins)\<rparr>"
proof (induction ins arbitrary: s)
  case Nil
  then show ?case by simp
next
  case (Cons i ins)
  from Cons.prems have "unat (BL_optimer s) \<noteq> 0"
    by simp
  then have nz: "BL_optimer s \<noteq> 0"
    by (auto simp: unat_eq_zero)
  then have pos: "0 < BL_optimer s"
    by (simp add: word_neq_0_conv)
  have dec: "unat (BL_optimer s - 1) = unat (BL_optimer s) - 1"
    using nz by (simp add: unat_minus_one)
  have step: "fst (BL_State_Ctrl cfg i s) = s\<lparr>BL_optimer := BL_optimer s - 1\<rparr>"
    using Cons.prems pos by (simp add: BL_State_Ctrl_ALIGN)
  have "fst (run_ticks cfg ins (s\<lparr>BL_optimer := BL_optimer s - 1\<rparr>)) =
      s\<lparr>BL_optimer := BL_optimer s - 1 - of_nat (length ins)\<rparr>"
    using Cons.IH [of "s\<lparr>BL_optimer := BL_optimer s - 1\<rparr>"] Cons.prems dec
    by simp
  then show ?case
    using step by (simp add: algebra_simps split_beta)
qed

text \<open>
  A ramp step from at least one step above the target: no wrap, no clamp.
\<close>

lemma ramp_down_step:
  assumes "unat tgt + unat (BL_ONE_RAMP_UNIT cfg) \<le> unat cur" "BL_ONE_RAMP_UNIT cfg \<noteq> 0"
  shows "timing_ramp_control cfg cur tgt s = s\<lparr>BL_comm_period := cur - BL_ONE_RAMP_UNIT cfg\<rparr>"
    and "unat (cur - BL_ONE_RAMP_UNIT cfg) = unat cur - unat (BL_ONE_RAMP_UNIT cfg)"
    and "\<not> cur \<le> tgt"
proof -
  let ?d = "BL_ONE_RAMP_UNIT cfg"
  have d: "0 < unat ?d"
    using assms(2) by (simp add: unat_gt_0)
  have le: "?d \<le> cur"
    using assms(1) by (simp add: word_le_nat_alt)
  show sub: "unat (cur - ?d) = unat cur - unat ?d"
    using le by (rule unat_sub)
  show gt: "\<not> cur \<le> tgt"
    using assms(1) d by (simp add: word_le_nat_alt)
  have "\<not> cur - ?d < tgt"
    using sub assms(1) by (simp add: word_less_nat_alt)
  then show "timing_ramp_control cfg cur tgt s = s\<lparr>BL_comm_period := cur - ?d\<rparr>"
    using gt by (simp add: timing_ramp_control_def BL_set_timing_def not_le)
qed

text \<open>
  In \<open>BL_RAMPUP\<close>, while the period is at least one step above the target, each
  unfaulted tick takes one step off and the state stays \<open>BL_RAMPUP\<close>.
\<close>

lemma run_ticks_RAMPUP:
  "BL_opstate s = BL_RAMPUP \<Longrightarrow> \<forall>i\<in>set ins. Faultm_get_status i = 0 \<Longrightarrow>
   BL_ONE_RAMP_UNIT cfg \<noteq> 0 \<Longrightarrow>
   unat (BL_CT_RAMP_END cfg) + length ins * unat (BL_ONE_RAMP_UNIT cfg) \<le> unat (BL_comm_period s) \<Longrightarrow>
   fst (run_ticks cfg ins s) =
     s\<lparr>BL_comm_period := BL_comm_period s - of_nat (length ins) * BL_ONE_RAMP_UNIT cfg\<rparr>"
proof (induction ins arbitrary: s)
  case Nil
  then show ?case by simp
next
  case (Cons i ins)
  let ?d = "BL_ONE_RAMP_UNIT cfg"
  let ?s1 = "s\<lparr>BL_comm_period := BL_comm_period s - ?d\<rparr>"
  have room: "unat (BL_CT_RAMP_END cfg) + unat ?d \<le> unat (BL_comm_period s)"
    using Cons.prems(4) by simp
  note one = ramp_down_step [OF room Cons.prems(3)]
  have step: "fst (BL_State_Ctrl cfg i s) = ?s1"
    using Cons.prems(1,2) one(1,3) by (simp add: BL_State_Ctrl_RAMPUP)
  have "fst (run_ticks cfg ins ?s1) =
      ?s1\<lparr>BL_comm_period := BL_comm_period ?s1 - of_nat (length ins) * ?d\<rparr>"
    using Cons.prems one(2) by (intro Cons.IH) simp_all
  then show ?case
    using step by (simp add: algebra_simps split_beta)
qed

lemma fst_run_ticks_append:
  "fst (run_ticks cfg (xs @ ys) s) = fst (run_ticks cfg ys (fst (run_ticks cfg xs s)))"
  by (simp add: run_ticks_append split_beta)

lemma idle_in_simps:
  "Faultm_get_status idle_in = 0" "\<not> corrector_accepts idle_in"
  by (simp_all add: idle_in_def corrector_accepts_def)

text \<open>
  From \<open>BL_STOPPED\<close>, a speed command and 847 ticks: alignment, then the ramp from
  5632 down to 1762.
\<close>

lemma ramp_run:
  assumes "BL_opstate s = BL_STOPPED"
  shows "fst (run_ticks example_config (replicate 847 idle_in)
           (fst (BL_set_speed example_config 100 s))) =
         s\<lparr>BL_comm_period := 1762, BL_motor_speed := 100, BL_optimer := 0,
           BL_opstate := BL_RAMPUP\<rparr>"
proof -
  let ?cfg = example_config
  let ?s1 = "s\<lparr>BL_motor_speed := 100\<rparr>"
  let ?s2 = "?s1\<lparr>BL_comm_period := 5632, BL_optimer := 200, BL_opstate := BL_ALIGN\<rparr>"
  let ?s3 = "?s2\<lparr>BL_optimer := 0\<rparr>"
  let ?s4 = "?s3\<lparr>BL_opstate := BL_RAMPUP\<rparr>"
  let ?s5 = "?s4\<lparr>BL_comm_period := 1762\<rparr>"
  have split: "replicate 847 idle_in =
      [idle_in] @ replicate 200 idle_in @ [idle_in] @ replicate 645 idle_in"
    by (simp flip: replicate_add replicate_Suc add: replicate_append_same)
  have a: "fst (BL_set_speed ?cfg 100 s) = ?s1"
    by (simp add: BL_set_speed_def example_config_def)
  have b: "fst (run_ticks ?cfg [idle_in] ?s1) = ?s2"
    using assms
    by (simp add: BL_State_Ctrl_STOPPED idle_in_simps example_config_def BL_TIME_ALIGN_def)
  have c: "fst (run_ticks ?cfg (replicate 200 idle_in) ?s2) = ?s3"
    using run_ticks_ALIGN [of ?s2 "replicate 200 idle_in" ?cfg]
    by (simp add: idle_in_simps del: run_ticks.simps)
  have d: "fst (run_ticks ?cfg [idle_in] ?s3) = ?s4"
    by (simp add: BL_State_Ctrl_ALIGN idle_in_simps)
  have e: "fst (run_ticks ?cfg (replicate 645 idle_in) ?s4) = ?s5"
    using run_ticks_RAMPUP [of ?s4 "replicate 645 idle_in" ?cfg]
    by (simp add: idle_in_simps example_config_def del: run_ticks.simps)
  show ?thesis
    unfolding split fst_run_ticks_append a b c d e by simp
qed

text \<open>
  Two more ticks: the first stores the target 1760, the second goes to \<open>BL_OPN_LOOP\<close>.
\<close>

lemma start_motor_eq:
  assumes "BL_opstate s = BL_STOPPED"
  shows "start_motor s =
         s\<lparr>BL_comm_period := 1760, BL_motor_speed := 100, BL_optimer := 0,
           BL_opstate := BL_OPN_LOOP\<rparr>"
proof -
  let ?cfg = example_config
  let ?s5 = "s\<lparr>BL_comm_period := 1762, BL_motor_speed := 100, BL_optimer := 0,
           BL_opstate := BL_RAMPUP\<rparr>"
  let ?s6 = "?s5\<lparr>BL_comm_period := 1760\<rparr>"
  have "replicate (847 + 2) idle_in = replicate 847 idle_in @ replicate 2 idle_in"
    by (rule replicate_add)
  moreover have "replicate 2 idle_in = [idle_in, idle_in]"
    by (simp add: numeral_2_eq_2)
  ultimately have split: "replicate 849 idle_in = replicate 847 idle_in @ [idle_in] @ [idle_in]"
    by simp
  have f: "fst (run_ticks ?cfg [idle_in] ?s5) = ?s6"
    by (simp add: BL_State_Ctrl_RAMPUP idle_in_simps example_config_def
        timing_ramp_control_def BL_set_timing_def)
  have g: "fst (run_ticks ?cfg [idle_in] ?s6) = ?s6\<lparr>BL_opstate := BL_OPN_LOOP\<rparr>"
    by (simp add: BL_State_Ctrl_RAMPUP idle_in_simps example_config_def
        timing_ramp_control_def BL_set_timing_def)
  show ?thesis
    unfolding start_motor_def split fst_run_ticks_append ramp_run [OF assms] f g by simp
qed

text \<open>
  The sample states are reached from \<open>startup_vars\<close> through the module's interface.
\<close>

lemma ramp_end_vars_reachable:
  "fst (run_ticks example_config (replicate 847 idle_in)
     (fst (BL_set_speed example_config 100 startup_vars))) = ramp_end_vars"
  by (simp add: ramp_run startup_vars_def ramp_end_vars_def del: run_ticks.simps)

lemma open_loop_vars_reachable:
  "start_motor startup_vars = open_loop_vars"
  by (simp add: start_motor_eq startup_vars_def open_loop_vars_def)

lemma closed_loop_vars_reachable:
  "fst (BL_State_Ctrl example_config accept_in (start_motor startup_vars)) = closed_loop_vars"
proof -
  have trunc: "(- 25 :: int) sdiv 10 = - 2"
    by (simp add: signed_divide_int_def)
  have "corrector_accepts accept_in" "Faultm_get_status accept_in = 0"
    by (simp_all add: corrector_accepts_def accept_in_def)
  then show ?thesis
    using trunc
    by (simp add: open_loop_vars_reachable BL_State_Ctrl_OPN_LOOP open_loop_vars_def
        closed_loop_vars_def accept_in_def)
qed

text \<open>
  First start, entry into closed loop, 2001 rejected passes (the last one reports the
  fault), \<open>BL_reset\<close>, second start: the counter is still 0.
\<close>

lemma reentry_vars_reachable:
  "start_motor (fst (BL_reset (fst (run_ticks example_config (replicate 2001 idle_in)
     (fst (BL_State_Ctrl example_config accept_in (start_motor startup_vars))))))) =
   reentry_vars"
proof -
  let ?cfg = example_config
  let ?s0 = "closed_loop_vars\<lparr>fault_counter := 0\<rparr>"
  have "replicate (2000 + 1) idle_in = replicate 2000 idle_in @ replicate 1 idle_in"
    by (rule replicate_add)
  then have split: "replicate 2001 idle_in = replicate 2000 idle_in @ [idle_in]"
    by simp
  have a: "fst (run_ticks ?cfg (replicate 2000 idle_in) closed_loop_vars) = ?s0"
    using run_ticks_CLS_LOOP_rejected [of closed_loop_vars "replicate 2000 idle_in" ?cfg]
    by (simp add: idle_in_simps closed_loop_vars_def del: run_ticks.simps)
  have b: "fst (run_ticks ?cfg [idle_in] ?s0) = ?s0"
    by (simp add: BL_State_Ctrl_CLS_LOOP_rejected idle_in_simps closed_loop_vars_def)
  have c: "fst (BL_reset ?s0) =
      ?s0\<lparr>BL_comm_period := 0xFFFF, BL_motor_speed := 0, BL_opstate := BL_STOPPED\<rparr>"
    by (simp add: BL_reset_def BL_stop_def BL_set_timing_def BL_set_opstate_def U16_MAX_def)
  show ?thesis
    unfolding closed_loop_vars_reachable split fst_run_ticks_append a b c
    by (simp add: start_motor_eq closed_loop_vars_def reentry_vars_def)
qed

section \<open>Ramp controller\<close>




section \<open>Closed-loop corrector\<close>

text \<open>
  Claim C2. For every current period: when no timing-error sample is available or the
  signed error is outside the open interval from \<open>-50\<close> to \<open>50\<close>, \<open>BL_cl_control\<close>
  returns false and leaves all variables as they are; otherwise it returns true and the
  only change is that the commutation period becomes the current period plus the error
  divided by 10, the division truncating towards zero and the sum taken in 16 bits, that
  is modulo \<open>2 ^ 16\<close>.
\<close>

theorem BL_cl_control_correct:
  "BL_cl_control inp current_period s =
     (if Seq_get_timing_error_p inp \<and> - 50 < sint (Seq_get_timing_error inp) \<and>
         sint (Seq_get_timing_error inp) < 50
      then (s\<lparr>BL_comm_period :=
                current_period + word_of_int (sint (Seq_get_timing_error inp) sdiv 10)\<rparr>,
            True)
      else (s, False)) \<and>
   uint (current_period + word_of_int (sint (Seq_get_timing_error inp) sdiv 10)) =
     (uint current_period + sint (Seq_get_timing_error inp) sdiv 10) mod 2 ^ 16"
proof -
  have "uint (current_period + word_of_int k) = (uint current_period + k) mod 2 ^ 16" for k
    by (simp add: uint_word_ariths uint_word_of_int mod_add_right_eq)
  then show ?thesis
    using BL_cl_control_eq [of inp current_period s] by (simp add: corrector_accepts_def)
qed

theorem BL_cl_control_correct_witness:
  "BL_cl_control accept_in 1760 open_loop_vars =
     (open_loop_vars\<lparr>BL_comm_period := 1758\<rparr>, True) \<and>
   BL_cl_control bound_in 1760 open_loop_vars = (open_loop_vars, False) \<and>
   BL_cl_control idle_in 1760 open_loop_vars = (open_loop_vars, False) \<and>
   BL_cl_control accept_in 1 open_loop_vars =
     (open_loop_vars\<lparr>BL_comm_period := 65535\<rparr>, True)"
proof -
  have trunc: "(- 25 :: int) sdiv 10 = - 2"
    by (simp add: signed_divide_int_def)
  from BL_cl_control_correct [of accept_in 1760 open_loop_vars]
    BL_cl_control_correct [of bound_in 1760 open_loop_vars]
    BL_cl_control_correct [of idle_in 1760 open_loop_vars]
    BL_cl_control_correct [of accept_in 1 open_loop_vars] trunc
  show ?thesis
    by (simp add: accept_in_def bound_in_def idle_in_def)
qed

section \<open>Speed setpoint\<close>

text \<open>
  Claim C4. For every value \<open>v\<close> given to \<open>BL_set_speed\<close>: at or below the shutoff
  threshold the drive is stopped and the commanded speed becomes 0; above it, and above the
  startup threshold or with a nonzero commanded speed, the commanded speed becomes \<open>v\<close>;
  otherwise nothing changes.
\<close>

theorem BL_set_speed_correct:
  "BL_set_speed cfg v s =
     (if v \<le> PWM_PD_SHUTOFF cfg then (s\<lparr>BL_motor_speed := 0\<rparr>, [All_phase_stop])
      else if v > PWM_PD_STARTUP cfg \<or> BL_motor_speed s \<noteq> 0
           then (s\<lparr>BL_motor_speed := v\<rparr>, [])
      else (s, []))"
  by (auto simp: BL_set_speed_def BL_stop_def not_le)

theorem BL_set_speed_correct_witness:
  "BL_set_speed example_config 22 closed_loop_vars =
     (closed_loop_vars\<lparr>BL_motor_speed := 0\<rparr>, [All_phase_stop]) \<and>
   BL_set_speed example_config 31 startup_vars =
     (startup_vars\<lparr>BL_motor_speed := 31\<rparr>, []) \<and>
   BL_set_speed example_config 25 closed_loop_vars =
     (closed_loop_vars\<lparr>BL_motor_speed := 25\<rparr>, []) \<and>
   BL_set_speed example_config 25 startup_vars = (startup_vars, [])"
  using BL_set_speed_correct [of example_config 22 closed_loop_vars]
    BL_set_speed_correct [of example_config 31 startup_vars]
    BL_set_speed_correct [of example_config 25 closed_loop_vars]
    BL_set_speed_correct [of example_config 25 startup_vars]
  by (simp add: example_config_def closed_loop_vars_def startup_vars_def)

section \<open>Reset\<close>

text \<open>
  Claim C6. \<open>BL_reset\<close> sets the commutation period to \<open>0xFFFF\<close>, the state to
  \<open>BL_STOPPED\<close> and the commanded speed to 0, stops the drive and initialises the fault
  manager; a second call in a row makes the same calls and gives the same variables.
\<close>

theorem BL_reset_idempotent:
  "BL_reset s =
     (s\<lparr>BL_comm_period := 0xFFFF, BL_motor_speed := 0, BL_opstate := BL_STOPPED\<rparr>,
      [All_phase_stop, Faultm_init]) \<and>
   BL_reset (fst (BL_reset s)) = BL_reset s"
  by (simp add: BL_reset_def BL_stop_def BL_set_timing_def BL_set_opstate_def U16_MAX_def)

theorem BL_reset_idempotent_witness:
  "BL_reset closed_loop_vars =
     (closed_loop_vars\<lparr>BL_comm_period := 0xFFFF, BL_motor_speed := 0,
        BL_opstate := BL_STOPPED\<rparr>,
      [All_phase_stop, Faultm_init]) \<and>
   BL_reset (fst (BL_reset closed_loop_vars)) = BL_reset closed_loop_vars"
  by (rule BL_reset_idempotent [of closed_loop_vars])

section \<open>Fault freeze\<close>

text \<open>
  Claim C5. In every state, over any run of the control task during which the fault
  manager reports a nonzero status, each run of the task stops the drive and commands a
  duty cycle of zero and makes no other call (none to the fault manager); the commanded
  speed is 0 afterwards and no other variable changes, in particular not the operating
  state or the commutation period. A \<open>BL_reset\<close> after that gives state \<open>BL_STOPPED\<close>
  and commanded speed 0.
\<close>

theorem fault_freeze:
  assumes "\<forall>i\<in>set ins. Faultm_get_status i \<noteq> 0"
  shows "run_ticks cfg ins s =
      (if ins = [] then s else s\<lparr>BL_motor_speed := 0\<rparr>,
       concat (replicate (length ins) [All_phase_stop, PWM_set_dutycycle 0])) \<and>
    BL_opstate (fst (run_ticks cfg ins s)) = BL_opstate s \<and>
    BL_comm_period (fst (run_ticks cfg ins s)) = BL_comm_period s \<and>
    BL_opstate (fst (BL_reset (fst (run_ticks cfg ins s)))) = BL_STOPPED \<and>
    BL_motor_speed (fst (BL_reset (fst (run_ticks cfg ins s)))) = 0"
  using run_ticks_fault [OF assms, of cfg s]
  by (simp add: BL_reset_def BL_stop_def BL_set_timing_def BL_set_opstate_def)

theorem fault_freeze_witness:
  "run_ticks example_config [fault_in, fault_in] closed_loop_vars =
     (closed_loop_vars\<lparr>BL_motor_speed := 0\<rparr>,
      [All_phase_stop, PWM_set_dutycycle 0, All_phase_stop, PWM_set_dutycycle 0]) \<and>
   BL_opstate (fst (run_ticks example_config [fault_in, fault_in] closed_loop_vars)) =
     BL_CLS_LOOP \<and>
   BL_opstate
     (fst (BL_reset (fst (run_ticks example_config [fault_in, fault_in] closed_loop_vars)))) =
     BL_STOPPED"
proof -
  have status: "\<forall>i\<in>set [fault_in, fault_in]. Faultm_get_status i \<noteq> 0"
    by (simp add: fault_in_def)
  from fault_freeze [OF status, of example_config closed_loop_vars] show ?thesis
    by (simp add: closed_loop_vars_def BL_reset_def BL_stop_def BL_set_timing_def
        BL_set_opstate_def del: run_ticks.simps)
qed

section \<open>Fault hysteresis in closed loop\<close>

text \<open>
  Claim C3. In \<open>BL_CLS_LOOP\<close> with the fault counter at \<open>CL_FAULT_CNTR\<close>, over a run of at
  most \<open>CL_FAULT_CNTR\<close> consecutive unfaulted ticks whose corrector pass is rejected the
  counter goes down by one per tick and no fault is reported. On the next tick, a rejected
  pass reports \<open>FAULT_1\<close> exactly when the counter has reached zero, that is after
  \<open>CL_FAULT_CNTR\<close> rejections; an accepted pass puts the counter back to \<open>CL_FAULT_CNTR\<close>
  and reports nothing.
\<close>

theorem CLS_LOOP_fault_hysteresis:
  assumes "BL_opstate s = BL_CLS_LOOP"
    and "fault_counter s = CL_FAULT_CNTR"
    and "\<forall>i\<in>set ins. Faultm_get_status i = 0 \<and> \<not> corrector_accepts i"
    and "length ins \<le> unat CL_FAULT_CNTR"
    and "Faultm_get_status inp = 0"
  shows "unat (fault_counter (fst (run_ticks cfg ins s))) = unat CL_FAULT_CNTR - length ins \<and>
    Faultm_set FAULT_1 \<notin> set (snd (run_ticks cfg ins s)) \<and>
    (\<not> corrector_accepts inp \<longrightarrow>
       (Faultm_set FAULT_1 \<in> set (snd (BL_State_Ctrl cfg inp (fst (run_ticks cfg ins s)))) \<longleftrightarrow>
        length ins = unat CL_FAULT_CNTR)) \<and>
    (corrector_accepts inp \<longrightarrow>
       fault_counter (fst (BL_State_Ctrl cfg inp (fst (run_ticks cfg ins s)))) =
         CL_FAULT_CNTR \<and>
       Faultm_set FAULT_1 \<notin> set (snd (BL_State_Ctrl cfg inp (fst (run_ticks cfg ins s)))))"
proof -
  let ?n = "length ins"
  let ?s' = "s\<lparr>fault_counter := CL_FAULT_CNTR - of_nat ?n\<rparr>"
  have run: "run_ticks cfg ins s =
      (?s', replicate ?n (PWM_set_dutycycle (BL_motor_speed s)))"
    using run_ticks_CLS_LOOP_rejected [of s ins cfg] assms(1-4) by simp
  have n: "?n \<le> 2000"
    using assms(4) by (simp add: CL_FAULT_CNTR_def)
  note cnt = unat_CL_FAULT_CNTR_minus [OF n]
  note zero = CL_FAULT_CNTR_minus_eq_0 [OF n]
  note le = CL_FAULT_CNTR_minus_le [OF n]
  have rej: "\<not> corrector_accepts inp \<Longrightarrow>
      (Faultm_set FAULT_1 \<in> set (snd (BL_State_Ctrl cfg inp ?s')) \<longleftrightarrow> ?n = 2000)"
    using assms(1,5) zero
    by (simp add: BL_State_Ctrl_CLS_LOOP_rejected word_greater_zero_iff)
  have acc: "corrector_accepts inp \<Longrightarrow>
      fault_counter (fst (BL_State_Ctrl cfg inp ?s')) = CL_FAULT_CNTR \<and>
      Faultm_set FAULT_1 \<notin> set (snd (BL_State_Ctrl cfg inp ?s'))"
    using assms(1,5) le
    by (auto simp: BL_State_Ctrl_CLS_LOOP_accepted not_less)
  show ?thesis
    using run cnt rej acc by (simp add: CL_FAULT_CNTR_def)
qed

theorem CLS_LOOP_fault_hysteresis_witness:
  "unat (fault_counter (fst (run_ticks example_config [idle_in, bound_in, idle_in]
      closed_loop_vars))) = 1997 \<and>
   Faultm_set FAULT_1 \<notin> set (snd (run_ticks example_config [idle_in, bound_in, idle_in]
      closed_loop_vars)) \<and>
   Faultm_set FAULT_1 \<notin> set (snd (BL_State_Ctrl example_config idle_in
      (fst (run_ticks example_config [idle_in, bound_in, idle_in] closed_loop_vars)))) \<and>
   fault_counter (fst (BL_State_Ctrl example_config accept_in
      (fst (run_ticks example_config [idle_in, bound_in, idle_in] closed_loop_vars)))) = 2000 \<and>
   Faultm_set FAULT_1 \<in> set (snd (BL_State_Ctrl example_config idle_in
      (fst (run_ticks example_config (replicate 2000 idle_in) closed_loop_vars))))"
proof -
  have st: "BL_opstate closed_loop_vars = BL_CLS_LOOP"
    and cnt: "fault_counter closed_loop_vars = CL_FAULT_CNTR"
    by (simp_all add: closed_loop_vars_def CL_FAULT_CNTR_def)
  have short: "\<forall>i\<in>set [idle_in, bound_in, idle_in].
      Faultm_get_status i = 0 \<and> \<not> corrector_accepts i"
    and long: "\<forall>i\<in>set (replicate 2000 idle_in).
      Faultm_get_status i = 0 \<and> \<not> corrector_accepts i"
    by (simp_all add: idle_in_def bound_in_def corrector_accepts_def)
  have len3: "length [idle_in, bound_in, idle_in] \<le> unat CL_FAULT_CNTR"
    and len2000: "length (replicate 2000 idle_in) \<le> unat CL_FAULT_CNTR"
    by (simp_all add: CL_FAULT_CNTR_def)
  have idle: "Faultm_get_status idle_in = 0" "\<not> corrector_accepts idle_in"
    by (simp_all add: idle_in_def corrector_accepts_def)
  have accept: "Faultm_get_status accept_in = 0" "corrector_accepts accept_in"
    by (simp_all add: accept_in_def corrector_accepts_def)
  from CLS_LOOP_fault_hysteresis [OF st cnt short len3 idle(1), of example_config]
    CLS_LOOP_fault_hysteresis [OF st cnt short len3 accept(1), of example_config]
    CLS_LOOP_fault_hysteresis [OF st cnt long len2000 idle(1), of example_config]
    idle(2) accept(2)
  show ?thesis
    by (simp add: CL_FAULT_CNTR_def del: run_ticks.simps)
qed

section \<open>Ramp-up\<close>

text \<open>
  Claim C8, as stated, fails: the transition to \<open>BL_OPN_LOOP\<close> is decided on the period
  read at the start of the tick, not on the ramped value. From a period of 1762 with the
  target at 1760 the tick stores the target, and the state is still \<open>BL_RAMPUP\<close>.
\<close>

theorem RAMPUP_target_reached_no_transition:
  "BL_opstate ramp_end_vars = BL_RAMPUP \<and>
   BL_comm_period (fst (BL_State_Ctrl example_config idle_in ramp_end_vars)) =
     BL_CT_RAMP_END example_config \<and>
   BL_opstate (fst (BL_State_Ctrl example_config idle_in ramp_end_vars)) = BL_RAMPUP"
  by (simp add: BL_State_Ctrl_RAMPUP idle_in_def ramp_end_vars_def example_config_def
      timing_ramp_control_def BL_set_timing_def)

text \<open>
  Claim C8, amended. In \<open>BL_RAMPUP\<close> an unfaulted tick reads the commutation period,
  stores what \<open>timing_ramp_control\<close> makes of it for the target \<open>BL_CT_RAMP_END\<close>, commands
  the duty cycle \<open>PWM_PD_RAMPUP\<close>, and goes to \<open>BL_OPN_LOOP\<close> exactly when the period read
  at the start of the tick is at or below the target; so after a ramp from above, the
  transition is made on the tick after the one that stores the target.
\<close>

theorem RAMPUP_tick:
  assumes "Faultm_get_status inp = 0" and "BL_opstate s = BL_RAMPUP"
  shows "BL_State_Ctrl cfg inp s =
      ((timing_ramp_control cfg (BL_get_timing s) (BL_CT_RAMP_END cfg) s)
         \<lparr>BL_opstate :=
            (if BL_get_timing s \<le> BL_CT_RAMP_END cfg then BL_OPN_LOOP else BL_RAMPUP)\<rparr>,
       [PWM_set_dutycycle (PWM_PD_RAMPUP cfg)]) \<and>
    (BL_opstate (fst (BL_State_Ctrl cfg inp s)) = BL_OPN_LOOP \<longleftrightarrow>
       BL_get_timing s \<le> BL_CT_RAMP_END cfg)"
  using assms by (simp add: BL_State_Ctrl_RAMPUP BL_get_timing_def)

theorem RAMPUP_tick_witness:
  "BL_State_Ctrl example_config idle_in ramp_end_vars =
     (ramp_end_vars\<lparr>BL_comm_period := 1760\<rparr>, [PWM_set_dutycycle 35]) \<and>
   BL_State_Ctrl example_config idle_in (ramp_end_vars\<lparr>BL_comm_period := 1760\<rparr>) =
     (ramp_end_vars\<lparr>BL_comm_period := 1760, BL_opstate := BL_OPN_LOOP\<rparr>,
      [PWM_set_dutycycle 35])"
proof -
  have idle: "Faultm_get_status idle_in = 0"
    by (simp add: idle_in_def)
  have st: "BL_opstate ramp_end_vars = BL_RAMPUP"
    "BL_opstate (ramp_end_vars\<lparr>BL_comm_period := 1760\<rparr>) = BL_RAMPUP"
    by (simp_all add: ramp_end_vars_def)
  from RAMPUP_tick [OF idle st(1), of example_config]
    RAMPUP_tick [OF idle st(2), of example_config]
  show ?thesis
    by (simp add: ramp_end_vars_def example_config_def timing_ramp_control_def
        BL_set_timing_def BL_get_timing_def)
qed

section \<open>Open loop to closed loop\<close>

text \<open>
  Claim C10. In \<open>BL_OPN_LOOP\<close>, on an unfaulted tick whose corrector pass is accepted, the
  commutation period at the end of the tick is the period read at the start of the tick
  plus the error divided by 10; what the ramp step stored earlier in the tick is
  overwritten. The state becomes \<open>BL_CLS_LOOP\<close> and the duty cycle commanded is
  \<open>PWM_PD_STARTUP\<close>.
\<close>

theorem OPN_LOOP_accepted_tick:
  assumes "Faultm_get_status inp = 0" and "BL_opstate s = BL_OPN_LOOP"
    and "snd (BL_cl_control inp (BL_get_timing s) s)"
  shows "BL_State_Ctrl cfg inp s =
      (s\<lparr>BL_comm_period :=
           BL_get_timing s + word_of_int (sint (Seq_get_timing_error inp) sdiv 10),
         BL_opstate := BL_CLS_LOOP\<rparr>,
       [PWM_set_dutycycle (PWM_PD_STARTUP cfg)])"
proof -
  from assms(3) have "corrector_accepts inp"
    by (simp add: BL_cl_control_eq split: if_splits)
  with assms(1,2) show ?thesis
    by (simp add: BL_State_Ctrl_OPN_LOOP BL_get_timing_def)
qed

theorem OPN_LOOP_accepted_tick_witness:
  "BL_comm_period (timing_ramp_control example_config 1760 1866 open_loop_vars) = 1766 \<and>
   BL_State_Ctrl example_config accept_in open_loop_vars =
     (open_loop_vars\<lparr>BL_comm_period := 1758, BL_opstate := BL_CLS_LOOP\<rparr>,
      [PWM_set_dutycycle 30])"
proof -
  have ok: "Faultm_get_status accept_in = 0"
    by (simp add: accept_in_def)
  have st: "BL_opstate open_loop_vars = BL_OPN_LOOP"
    by (simp add: open_loop_vars_def)
  have acc: "snd (BL_cl_control accept_in (BL_get_timing open_loop_vars) open_loop_vars)"
    by (simp add: BL_cl_control_eq corrector_accepts_def accept_in_def)
  have ramp: "BL_comm_period (timing_ramp_control example_config 1760 1866 open_loop_vars) =
      1766"
    by (simp add: timing_ramp_control_def example_config_def BL_set_timing_def)
  have trunc: "(- 25 :: int) sdiv 10 = - 2"
    by (simp add: signed_divide_int_def)
  from OPN_LOOP_accepted_tick [OF ok st acc, of example_config] ramp trunc
  show ?thesis
    by (simp add: open_loop_vars_def example_config_def accept_in_def BL_get_timing_def)
qed

section \<open>Commutation step\<close>

text \<open>
  Claim C9. For every value of the operating state, \<open>BL_Commutation_Step\<close> makes exactly
  one call \<open>Sequence_Step_0\<close> (hold the sector) in \<open>BL_ARMING\<close> and \<open>BL_ALIGN\<close>, exactly one
  call \<open>Sequence_Step\<close> (next sector) in \<open>BL_RAMPUP\<close>, \<open>BL_OPN_LOOP\<close> and \<open>BL_CLS_LOOP\<close>,
  and no call in \<open>BL_STOPPED\<close>, \<open>BL_NONE\<close> and for any other value.
\<close>

theorem BL_Commutation_Step_dispatch:
  "BL_Commutation_Step s =
     (if BL_get_opstate s \<in> {BL_ARMING, BL_ALIGN} then [Sequence_Step_0]
      else if BL_get_opstate s \<in> {BL_RAMPUP, BL_OPN_LOOP, BL_CLS_LOOP} then [Sequence_Step]
      else [])"
  by (cases "BL_get_opstate s") (simp_all add: BL_Commutation_Step_def)

theorem BL_Commutation_Step_dispatch_witness:
  "BL_Commutation_Step (BL_set_opstate BL_ALIGN startup_vars) = [Sequence_Step_0] \<and>
   BL_Commutation_Step closed_loop_vars = [Sequence_Step] \<and>
   BL_Commutation_Step startup_vars = [] \<and>
   BL_Commutation_Step (BL_set_opstate (BL_UNRECOGNIZED 99) startup_vars) = []"
  using BL_Commutation_Step_dispatch [of "BL_set_opstate BL_ALIGN startup_vars"]
    BL_Commutation_Step_dispatch [of closed_loop_vars]
    BL_Commutation_Step_dispatch [of startup_vars]
    BL_Commutation_Step_dispatch [of "BL_set_opstate (BL_UNRECOGNIZED 99) startup_vars"]
  by (simp add: BL_get_opstate_def BL_set_opstate_def startup_vars_def closed_loop_vars_def)

section \<open>Extent of the fault counter\<close>

text \<open>
  Nothing outside the \<open>BL_CLS_LOOP\<close> branch of the control task writes the fault
  counter; \<open>BL_reset\<close> in particular does not restore it.
\<close>

lemma fault_counter_written_only_in_CLS_LOOP:
  "(BL_opstate s \<noteq> BL_CLS_LOOP \<or> Faultm_get_status inp \<noteq> 0 \<longrightarrow>
      fault_counter (fst (BL_State_Ctrl cfg inp s)) = fault_counter s) \<and>
   fault_counter (fst (BL_reset s)) = fault_counter s \<and>
   fault_counter (fst (BL_set_speed cfg v s)) = fault_counter s \<and>
   fault_counter (BL_set_timing u16 s) = fault_counter s \<and>
   fault_counter (BL_set_opstate opstate s) = fault_counter s"
proof -
  have "fault_counter (fst (BL_State_Ctrl cfg inp s)) = fault_counter s"
    if "BL_opstate s \<noteq> BL_CLS_LOOP \<or> Faultm_get_status inp \<noteq> 0"
    using that
    by (cases "BL_opstate s")
      (auto simp: BL_State_Ctrl_def BL_stop_def BL_reset_def BL_get_opstate_def
        BL_get_speed_def BL_set_timing_def BL_set_opstate_def BL_get_timing_def
        timing_ramp_control_def BL_cl_control_eq Let_def split: if_splits)
  then show ?thesis
    by (simp add: BL_reset_def BL_stop_def BL_set_speed_def BL_set_timing_def
        BL_set_opstate_def)
qed

text \<open>
  Claim C7. The fault counter is to start at \<open>CL_FAULT_CNTR\<close> on every entry into
  \<open>BL_CLS_LOOP\<close>, so that rejected passes at the cutover are suppressed. The source keeps
  it in a function-local static that is initialised once. On the first start of the motor
  the counter is \<open>CL_FAULT_CNTR\<close> on entry. After 2001 rejected passes (the last one
  reports the fault), a \<open>BL_reset\<close> and a second start, the tick that enters
  \<open>BL_CLS_LOOP\<close> leaves the counter at 0, and the first rejected pass after that reports
  \<open>FAULT_1\<close> at once.
\<close>

theorem CLS_LOOP_reentry_counter_zero:
  "fault_counter (fst (BL_State_Ctrl example_config accept_in (start_motor startup_vars))) =
     CL_FAULT_CNTR \<and>
   start_motor (fst (BL_reset (fst (run_ticks example_config (replicate 2001 idle_in)
     (fst (BL_State_Ctrl example_config accept_in (start_motor startup_vars))))))) =
     reentry_vars \<and>
   BL_opstate reentry_vars = BL_OPN_LOOP \<and>
   BL_opstate (fst (BL_State_Ctrl example_config accept_in reentry_vars)) = BL_CLS_LOOP \<and>
   fault_counter (fst (BL_State_Ctrl example_config accept_in reentry_vars)) = 0 \<and>
   fault_counter (fst (BL_State_Ctrl example_config accept_in reentry_vars)) \<noteq> CL_FAULT_CNTR \<and>
   Faultm_set FAULT_1 \<in> set (snd (BL_State_Ctrl example_config idle_in
     (fst (BL_State_Ctrl example_config accept_in reentry_vars))))"
proof -
  have acc: "corrector_accepts accept_in" "Faultm_get_status accept_in = 0"
    by (simp_all add: corrector_accepts_def accept_in_def)
  have first: "fault_counter (fst (BL_State_Ctrl example_config accept_in
      (start_motor startup_vars))) = CL_FAULT_CNTR"
    by (simp add: closed_loop_vars_reachable closed_loop_vars_def CL_FAULT_CNTR_def)
  have tick: "fst (BL_State_Ctrl example_config accept_in reentry_vars) =
      reentry_vars\<lparr>BL_comm_period := 1758, BL_opstate := BL_CLS_LOOP\<rparr>"
    using acc
    by (simp add: BL_State_Ctrl_OPN_LOOP reentry_vars_def accept_in_def signed_divide_int_def)
  have rest: "BL_opstate reentry_vars = BL_OPN_LOOP \<and>
      BL_opstate (fst (BL_State_Ctrl example_config accept_in reentry_vars)) = BL_CLS_LOOP \<and>
      fault_counter (fst (BL_State_Ctrl example_config accept_in reentry_vars)) = 0 \<and>
      fault_counter (fst (BL_State_Ctrl example_config accept_in reentry_vars)) \<noteq>
        CL_FAULT_CNTR \<and>
      Faultm_set FAULT_1 \<in> set (snd (BL_State_Ctrl example_config idle_in
        (fst (BL_State_Ctrl example_config accept_in reentry_vars))))"
    unfolding tick
    by (simp add: BL_State_Ctrl_CLS_LOOP_rejected idle_in_simps reentry_vars_def
        CL_FAULT_CNTR_def)
  show ?thesis
    by (rule conjI [OF first conjI [OF reentry_vars_reachable rest]])
qed

end
